theory Spec2Isabelle
  imports Main
begin

section \<open>Connection form configuration (formConfig.tsx)\<close>

text \<open>
  A shallow embedding of \<^verbatim>\<open>airbyte-webapp/src/views/Connection/ConnectionForm/formConfig.tsx\<close>.
  A TypeScript object type is a record, a string enum a datatype, an optional field
  (\<^verbatim>\<open>f?: T\<close>) a field of type \<open>T option\<close> with \<open>None\<close> for \<^verbatim>\<open>undefined\<close>.
\<close>

subsection \<open>Enumerations\<close>

text \<open>
  The enums are imported by the file (\<^verbatim>\<open>core/domain/catalog\<close>,
  \<^verbatim>\<open>core/request/AirbyteClient\<close>, \<^verbatim>\<open>core/domain/connection/operation\<close>); the
  members below are the ones the file names. All of them are non-empty strings at run time,
  so each member is truthy. \<^verbatim>\<open>DestinationSyncMode.append\<close> is \<open>append_mode\<close> here.
\<close>

datatype SyncMode = FullRefresh | Incremental

datatype DestinationSyncMode = overwrite | append_mode | append_dedup

datatype NormalizationType = BASIC | RAW

datatype OperatorType = Normalization | Dbt

datatype NamespaceDefinitionType = source | destination | customformat

subsection \<open>Operations\<close>

record OperatorNormalization =
  option :: "NormalizationType option"

record OperatorDbt =
  gitRepoUrl :: string
  dockerImage :: string
  dbtArguments :: string

text \<open>
  The fields \<^verbatim>\<open>normalization\<close> and \<^verbatim>\<open>dbt\<close> of the operator configuration are
  optional; the first is named \<open>normalization_op\<close> here, apart from the form's field
  \<^verbatim>\<open>normalization\<close>.
\<close>

record OperatorConfiguration =
  operatorType :: OperatorType
  normalization_op :: "OperatorNormalization option"
  dbt :: "OperatorDbt option"

record OperationRead =
  operationId :: string
  name :: string
  workspaceId :: string
  operatorConfiguration :: OperatorConfiguration

text \<open>A transformation is pushed onto an \<^verbatim>\<open>OperationRead[]\<close> as it is: the same shape.\<close>

type_synonym Transformation = OperationRead

text \<open>
  Modelled from the spec: the type guards \<^verbatim>\<open>isNormalizationTransformation\<close> and
  \<^verbatim>\<open>isDbtTransformation\<close> are imported from \<^verbatim>\<open>core/domain/connection/operation\<close>.
  An operation is a tagged union of a normalization and a transformation operation; the
  tag is \<^verbatim>\<open>operatorConfiguration.operatorType\<close>.
\<close>

definition isNormalizationTransformation :: "OperationRead \<Rightarrow> bool" where
  "isNormalizationTransformation op =
     (operatorType (operatorConfiguration op) = Normalization)"

definition isDbtTransformation :: "OperationRead \<Rightarrow> bool" where
  "isDbtTransformation op = (operatorType (operatorConfiguration op) = Dbt)"

subsection \<open>mapFormPropsToOperation\<close>

text \<open>
  The parameter \<^verbatim>\<open>values: { transformations?: ...; normalization?: ... }\<close>. Any
  object with these two fields is accepted: the function is stated on the record scheme.
\<close>

record FormOperationValues =
  transformations :: "Transformation list option"
  normalization :: "NormalizationType option"

text \<open>
  The operation pushed when no persisted normalization operation is found
  (lines 180 to 190).
\<close>

definition newNormalizationOperation :: "NormalizationType \<Rightarrow> string \<Rightarrow> OperationRead" where
  "newNormalizationOperation choice wsId =
     \<lparr> operationId = [],
       name = ''Normalization'',
       workspaceId = wsId,
       operatorConfiguration =
         \<lparr> operatorType = Normalization,
           normalization_op = Some \<lparr> option = Some choice \<rparr>,
           dbt = None \<rparr> \<rparr>"

text \<open>
  \<^verbatim>\<open>initialOperations: OperationRead[] = []\<close>: a default parameter, so an
  \<^verbatim>\<open>undefined\<close> argument (\<open>None\<close>) is the empty list.
  \<^verbatim>\<open>newOperations\<close> starts empty; the first block pushes at most one operation, the
  second block pushes the transformations.
\<close>

definition mapFormPropsToOperation ::
  "'a FormOperationValues_scheme \<Rightarrow> OperationRead list option \<Rightarrow> string \<Rightarrow> OperationRead list" where
  "mapFormPropsToOperation values initialOperationsArg wsId =
     (let initialOperations = (case initialOperationsArg of None \<Rightarrow> [] | Some ops \<Rightarrow> ops);
          newOperations = [];
          newOperations =
            (case normalization values of
               None \<Rightarrow> newOperations
             | Some choice \<Rightarrow>
                 if choice \<noteq> RAW then
                   (case find isNormalizationTransformation initialOperations of
                      Some normalizationOperation \<Rightarrow> newOperations @ [normalizationOperation]
                    | None \<Rightarrow> newOperations @ [newNormalizationOperation choice wsId])
                 else newOperations);
          newOperations =
            (case transformations values of
               None \<Rightarrow> newOperations
             | Some ts \<Rightarrow> newOperations @ ts)
      in newOperations)"

text \<open>
  The two lists the function works on: the transformations pushed by the second block,
  and the persisted operations after the default of the parameter.
\<close>

definition transformationList :: "'a FormOperationValues_scheme \<Rightarrow> Transformation list" where
  "transformationList values = (case transformations values of None \<Rightarrow> [] | Some ts \<Rightarrow> ts)"

definition initialOperationsOrDefault :: "OperationRead list option \<Rightarrow> OperationRead list" where
  "initialOperationsOrDefault arg = (case arg of None \<Rightarrow> [] | Some ops \<Rightarrow> ops)"

subsection \<open>Initial transformations and normalization\<close>

definition getInitialTransformations :: "OperationRead list option \<Rightarrow> Transformation list" where
  "getInitialTransformations operations =
     (case operations of None \<Rightarrow> [] | Some ops \<Rightarrow> filter isDbtTransformation ops)"

text \<open>
  \<^verbatim>\<open>operations?.find(isNormalizationTransformation)?.operatorConfiguration?.normalization?.option\<close>:
  every missing link of the chain gives \<^verbatim>\<open>undefined\<close>.
\<close>

definition persistedNormalizationOption :: "OperationRead list option \<Rightarrow> NormalizationType option" where
  "persistedNormalizationOption operations =
     (case operations of
        None \<Rightarrow> None
      | Some ops \<Rightarrow>
          (case find isNormalizationTransformation ops of
             None \<Rightarrow> None
           | Some op \<Rightarrow>
               (case normalization_op (operatorConfiguration op) of
                  None \<Rightarrow> None
                | Some n \<Rightarrow> option n)))"

text \<open>Truthiness of an optional boolean: \<^verbatim>\<open>undefined\<close> is falsy.\<close>

definition truthy :: "bool option \<Rightarrow> bool" where
  "truthy b = (case b of None \<Rightarrow> False | Some v \<Rightarrow> v)"

text \<open>
  Lines 222 to 232. Inside the \<^verbatim>\<open>if\<close>, the variable is assigned \<^verbatim>\<open>undefined\<close>;
  the result is \<^verbatim>\<open>initialNormalization ?? NormalizationType.BASIC\<close>.
\<close>

definition getInitialNormalization ::
  "OperationRead list option \<Rightarrow> bool option \<Rightarrow> NormalizationType" where
  "getInitialNormalization operations isEditMode =
     (let initialNormalization = persistedNormalizationOption operations;
          initialNormalization =
            (if initialNormalization = None \<and> truthy isEditMode then None
             else initialNormalization)
      in case initialNormalization of None \<Rightarrow> BASIC | Some n \<Rightarrow> n)"

subsection \<open>Catalog\<close>

text \<open>
  The stream descriptor (\<^verbatim>\<open>AirbyteStream\<close>) and the stream configuration
  (\<^verbatim>\<open>AirbyteStreamConfiguration\<close>) are declared outside the file. The fields are the
  ones the file and the validation schema read; \<open>streamName\<close> stands for the rest of
  the descriptor. The field \<^verbatim>\<open>id\<close> of a \<^verbatim>\<open>SyncSchemaStream\<close> is \<open>id_str\<close> here.
\<close>

record AirbyteStream =
  streamName :: string
  supportedSyncModes :: "SyncMode list"
  sourceDefinedCursor :: "bool option"
  defaultCursorField :: "string list"

record AirbyteStreamConfiguration =
  selected :: "bool option"
  syncMode :: SyncMode
  destinationSyncMode :: DestinationSyncMode
  primaryKey :: "string list list option"
  cursorField :: "string list option"

record SyncSchemaStream =
  id_str :: string
  stream :: AirbyteStream
  config :: AirbyteStreamConfiguration

record SyncSchema =
  streams :: "SyncSchemaStream list"

text \<open>\<^verbatim>\<open>Number.prototype.toString\<close> on an array index: the decimal digits.\<close>

fun toString :: "nat \<Rightarrow> string" where
  "toString n =
     (if n < 10 then [''0123456789'' ! n]
      else toString (n div 10) @ [''0123456789'' ! (n mod 10)])"

declare toString.simps [simp del]

subsection \<open>Default sync mode\<close>

definition SUPPORTED_MODES :: "(SyncMode \<times> DestinationSyncMode) list" where
  "SUPPORTED_MODES =
     [(FullRefresh, overwrite),
      (FullRefresh, append_mode),
      (Incremental, append_mode),
      (Incremental, append_dedup)]"

text \<open>
  Modelled from the spec: the priority order of the compatibility table. The function
  that walks the table is imported from \<^verbatim>\<open>./formConfigHelpers\<close>; the file itself only
  declares and exports the table. The spec ranks (Incremental, append_dedup) above
  (FullRefresh, overwrite) (its section 8) and incremental with deduplication above plain
  append (its section 4.2): the candidates from the last entry of \<^verbatim>\<open>SUPPORTED_MODES\<close>
  to the first.
\<close>

definition priorityOrder :: "(SyncMode \<times> DestinationSyncMode) list" where
  "priorityOrder = rev SUPPORTED_MODES"

text \<open>
  Modelled from the spec: \<^verbatim>\<open>getOptimalSyncMode\<close> is imported from
  \<^verbatim>\<open>./formConfigHelpers\<close>. The spec's \<^verbatim>\<open>resolveDefaultMode\<close> iterates the
  compatibility table in priority order and returns the first pair such that the stream
  descriptor supports the pair's sync mode and the destination supports the pair, and none
  when no pair qualifies. What the destination supports is a parameter \<open>supports\<close> of
  the resolution, so that it can be read on pairs as well as on destination sync modes.
\<close>

definition resolveDefaultMode ::
  "(SyncMode \<times> DestinationSyncMode \<Rightarrow> bool) \<Rightarrow> AirbyteStream \<Rightarrow>
     (SyncMode \<times> DestinationSyncMode) option" where
  "resolveDefaultMode supports s =
     find (\<lambda>p. fst p \<in> set (supportedSyncModes s) \<and> supports p) priorityOrder"

text \<open>
  Modelled from the spec: the file passes \<^verbatim>\<open>supportedDestinationSyncModes\<close>, a
  \<^verbatim>\<open>DestinationSyncMode[] | undefined\<close>; membership is checked against the destination
  sync modes the destination declares (none when the list is undefined).
\<close>

definition destinationSupports ::
  "DestinationSyncMode list option \<Rightarrow> SyncMode \<times> DestinationSyncMode \<Rightarrow> bool" where
  "destinationSupports supported p =
     (case supported of None \<Rightarrow> False | Some modes \<Rightarrow> snd p \<in> set modes)"

text \<open>
  Modelled from the spec: \<^verbatim>\<open>getOptimalSyncMode(streamNode, supportedDestinationSyncModes)\<close>
  gives the stream with the resolved pair as its configured modes, or nothing (a falsy
  value, which the caller filters out) when the resolution gives none.
\<close>

definition getOptimalSyncMode ::
  "SyncSchemaStream \<Rightarrow> DestinationSyncMode list option \<Rightarrow> SyncSchemaStream option" where
  "getOptimalSyncMode streamNode supported =
     (case resolveDefaultMode (destinationSupports supported) (stream streamNode) of
        None \<Rightarrow> None
      | Some p \<Rightarrow>
          Some (streamNode\<lparr> config :=
                  (config streamNode)\<lparr> syncMode := fst p, destinationSyncMode := snd p \<rparr> \<rparr>))"



subsection \<open>Initial schema\<close>

text \<open>
  What the file imports and the model takes as given: the two helpers of
  \<^verbatim>\<open>./formConfigHelpers\<close> that map a stream to a stream, and the constant
  \<^verbatim>\<open>SOURCE_NAMESPACE_TAG\<close> of \<^verbatim>\<open>core/domain/connector/source\<close>.
\<close>

record Imported =
  verifySupportedSyncModes :: "SyncSchemaStream \<Rightarrow> SyncSchemaStream"
  verifyConfigCursorField :: "SyncSchemaStream \<Rightarrow> SyncSchemaStream"
  SOURCE_NAMESPACE_TAG :: string

text \<open>
  The spec has these helpers return a stream configuration: the stream descriptor is
  never mutated, and the \<^verbatim>\<open>id\<close> is the one assigned before the call.
\<close>

definition keepsDescriptor :: "(SyncSchemaStream \<Rightarrow> SyncSchemaStream) \<Rightarrow> bool" where
  "keepsDescriptor f = (\<forall>n. id_str (f n) = id_str n \<and> stream (f n) = stream n)"

text \<open>
  Modelled from the spec: \<^verbatim>\<open>repairCursorField\<close>, the spec's account of
  \<^verbatim>\<open>verifyConfigCursorField\<close>. If the sync mode is Incremental, the descriptor does
  not define a cursor itself and no cursor field is set, the descriptor's default cursor
  path is substituted when there is one; otherwise the stream is left as it is.
\<close>

definition repairCursorField :: "SyncSchemaStream \<Rightarrow> SyncSchemaStream" where
  "repairCursorField n =
     (if syncMode (config n) = Incremental
         \<and> \<not> truthy (sourceDefinedCursor (stream n))
         \<and> (cursorField (config n) = None \<or> cursorField (config n) = Some [])
         \<and> defaultCursorField (stream n) \<noteq> []
      then n\<lparr> config := (config n)\<lparr> cursorField := Some (defaultCursorField (stream n)) \<rparr> \<rparr>
      else n)"

text \<open>\<^verbatim>\<open>Array.prototype.map\<close> with the index, and \<^verbatim>\<open>.filter(Boolean)\<close>.\<close>

definition mapIndexed :: "('a \<Rightarrow> nat \<Rightarrow> 'b) \<Rightarrow> 'a list \<Rightarrow> 'b list" where
  "mapIndexed f xs = map (\<lambda>(i, x). f x i) (enumerate 0 xs)"

fun filterBoolean :: "'a option list \<Rightarrow> 'a list" where
  "filterBoolean [] = []"
| "filterBoolean (None # xs) = filterBoolean xs"
| "filterBoolean (Some x # xs) = x # filterBoolean xs"

text \<open>The function memoised by \<^verbatim>\<open>useInitialSchema\<close> (lines 206 to 215).\<close>

definition initialSchema ::
  "'e Imported_scheme \<Rightarrow> SyncSchemaStream list \<Rightarrow> DestinationSyncMode list option \<Rightarrow> SyncSchema" where
  "initialSchema env schemaStreams supportedDestinationSyncModes =
     \<lparr> streams =
         filterBoolean
           (mapIndexed
              (\<lambda>apiNode i.
                 let nodeWithId = apiNode\<lparr> id_str := toString i \<rparr>;
                     nodeStream =
                       verifyConfigCursorField env (verifySupportedSyncModes env nodeWithId)
                 in getOptimalSyncMode nodeStream supportedDestinationSyncModes)
              schemaStreams) \<rparr>"

text \<open>
  The body of the callback of \<^verbatim>\<open>map\<close> on its own, and the streams for which the
  resolution gives a pair.
\<close>

definition resolveNode ::
  "'e Imported_scheme \<Rightarrow> DestinationSyncMode list option \<Rightarrow> SyncSchemaStream \<Rightarrow> nat \<Rightarrow>
     SyncSchemaStream option" where
  "resolveNode env supported apiNode i =
     (let nodeWithId = apiNode\<lparr> id_str := toString i \<rparr>;
          nodeStream = verifyConfigCursorField env (verifySupportedSyncModes env nodeWithId)
      in getOptimalSyncMode nodeStream supported)"

definition resolvable :: "DestinationSyncMode list option \<Rightarrow> SyncSchemaStream \<Rightarrow> bool" where
  "resolvable supported s =
     (resolveDefaultMode (destinationSupports supported) (stream s) \<noteq> None)"

text \<open>
  \<^verbatim>\<open>useMemo(factory, deps)\<close> with its memo cell made explicit: the cell holds the
  dependencies and the value of the last computation. The value of \<open>factory\<close> is what
  the closure computes from the variables of the current call; it is used only when the
  cell is empty or its dependencies differ from \<open>deps\<close>. Dependencies are compared as
  values: the inputs are read-only, so the same object has the same value.
\<close>

definition useMemo :: "'v \<Rightarrow> 'd \<Rightarrow> ('d \<times> 'v) option \<Rightarrow> 'v \<times> ('d \<times> 'v) option" where
  "useMemo factory deps cell =
     (case cell of
        None \<Rightarrow> (factory, Some (deps, factory))
      | Some (d, v) \<Rightarrow> if d = deps then (v, cell) else (factory, Some (deps, factory)))"

type_synonym SchemaCell =
  "((SyncSchemaStream list \<times> DestinationSyncMode list option) \<times> SyncSchema) option"

definition useInitialSchema ::
  "'e Imported_scheme \<Rightarrow> SyncSchema \<Rightarrow> DestinationSyncMode list option \<Rightarrow> SchemaCell \<Rightarrow>
     SyncSchema \<times> SchemaCell" where
  "useInitialSchema env schema supportedDestinationSyncModes cell =
     useMemo (initialSchema env (streams schema) supportedDestinationSyncModes)
       (streams schema, supportedDestinationSyncModes) cell"

subsection \<open>Initial values\<close>

text \<open>
  A value that may be \<^verbatim>\<open>undefined\<close> or \<^verbatim>\<open>null\<close>
  (\<^verbatim>\<open>schedule?: ConnectionSchedule | null\<close>).
\<close>

datatype 'a nullable = Undefined | Null | Value 'a

text \<open>
  A schedule as the form holds it: the validation schema requires both fields, so a
  value under validation may lack either.
\<close>

record ConnectionSchedule =
  units :: "int option"
  timeUnit :: "string option"

definition DEFAULT_SCHEDULE :: ConnectionSchedule where
  "DEFAULT_SCHEDULE = \<lparr> units = Some 24, timeUnit = Some ''hours'' \<rparr>"

text \<open>
  The fields of the connection that \<^verbatim>\<open>useInitialValues\<close> reads, all but
  \<^verbatim>\<open>syncCatalog\<close> optional (\<^verbatim>\<open>Partial<WebBackendConnectionRead>\<close>), and those of
  the destination definition.
\<close>

record WebBackendConnectionRead =
  syncCatalog :: SyncSchema
  schedule :: "ConnectionSchedule nullable"
  prefix :: "string option"
  namespaceDefinition :: "NamespaceDefinitionType option"
  namespaceFormat :: "string option"
  operations :: "OperationRead list option"

record DestinationDefinitionSpecificationRead =
  supportedDestinationSyncModes :: "DestinationSyncMode list option"
  supportsDbt :: "bool option"
  supportsNormalization :: "bool option"

text \<open>
  \<^verbatim>\<open>FormikConnectionFormValues\<close>: the two fields \<^verbatim>\<open>transformations\<close> and
  \<^verbatim>\<open>normalization\<close> and the fields below, whose names carry the suffix \<open>_v\<close>
  apart from the connection's.
\<close>

record FormikConnectionFormValues = FormOperationValues +
  schedule_v :: "ConnectionSchedule nullable"
  prefix_v :: string
  syncCatalog_v :: SyncSchema
  namespaceDefinition_v :: "NamespaceDefinitionType option"
  namespaceFormat_v :: string

text \<open>
  The function memoised by \<^verbatim>\<open>useInitialValues\<close> (lines 244 to 262).
  \<^verbatim>\<open>connection.prefix || ""\<close> is the prefix, or the empty string when it is missing
  (or empty).
\<close>

definition initialValues ::
  "'e Imported_scheme \<Rightarrow> SyncSchema \<Rightarrow> WebBackendConnectionRead \<Rightarrow>
     DestinationDefinitionSpecificationRead \<Rightarrow> bool option \<Rightarrow> FormikConnectionFormValues" where
  "initialValues env schema connection destDefinition isEditMode =
     (let initialValues =
            \<lparr> transformations = None,
              normalization = None,
              schedule_v =
                (if schedule connection \<noteq> Undefined then schedule connection
                 else Value DEFAULT_SCHEDULE),
              prefix_v = (case prefix connection of None \<Rightarrow> [] | Some p \<Rightarrow> p),
              syncCatalog_v = schema,
              namespaceDefinition_v =
                (case namespaceDefinition connection of
                   None \<Rightarrow> Some source
                 | Some d \<Rightarrow> Some d),
              namespaceFormat_v =
                (case namespaceFormat connection of
                   None \<Rightarrow> SOURCE_NAMESPACE_TAG env
                 | Some f \<Rightarrow> f) \<rparr>;
          ops = (case operations connection of None \<Rightarrow> [] | Some os \<Rightarrow> os);
          initialValues =
            (if truthy (supportsDbt destDefinition)
             then initialValues\<lparr> transformations := Some (getInitialTransformations (Some ops)) \<rparr>
             else initialValues);
          initialValues =
            (if truthy (supportsNormalization destDefinition)
             then initialValues
                    \<lparr> normalization := Some (getInitialNormalization (Some ops) isEditMode) \<rparr>
             else initialValues)
      in initialValues)"

text \<open>
  The two memo cells of one mounted \<^verbatim>\<open>useInitialValues\<close>: the one inside
  \<^verbatim>\<open>useInitialSchema\<close>, with dependencies
  \<^verbatim>\<open>[schema.streams, supportedDestinationSyncModes]\<close>, and its own, with dependencies
  \<^verbatim>\<open>[initialSchema, connection, isEditMode, destDefinition]\<close>.
\<close>

type_synonym ValuesCell =
  "((SyncSchema \<times> WebBackendConnectionRead \<times> bool option
       \<times> DestinationDefinitionSpecificationRead) \<times> FormikConnectionFormValues) option"

record Hooks =
  schemaCell :: SchemaCell
  valuesCell :: ValuesCell

definition useInitialValues ::
  "'e Imported_scheme \<Rightarrow> WebBackendConnectionRead \<Rightarrow> DestinationDefinitionSpecificationRead \<Rightarrow>
     bool option \<Rightarrow> Hooks \<Rightarrow> FormikConnectionFormValues \<times> Hooks" where
  "useInitialValues env connection destDefinition isEditMode hooks =
     (let (schema, cell1) =
            useInitialSchema env (syncCatalog connection)
              (supportedDestinationSyncModes destDefinition) (schemaCell hooks);
          (vals, cell2) =
            useMemo (initialValues env schema connection destDefinition isEditMode)
              (schema, connection, isEditMode, destDefinition) (valuesCell hooks)
      in (vals, \<lparr> schemaCell = cell1, valuesCell = cell2 \<rparr>))"

text \<open>
  A component is mounted with empty cells and then rendered any number of times, each
  time with the arguments of that render.
\<close>

definition mounted :: Hooks where
  "mounted = \<lparr> schemaCell = None, valuesCell = None \<rparr>"

fun renders ::
  "'e Imported_scheme \<Rightarrow>
     (WebBackendConnectionRead \<times> DestinationDefinitionSpecificationRead \<times> bool option) list \<Rightarrow>
     Hooks \<Rightarrow> Hooks" where
  "renders env [] hooks = hooks"
| "renders env ((connection, destDefinition, isEditMode) # rest) hooks =
     renders env rest (snd (useInitialValues env connection destDefinition isEditMode hooks))"

text \<open>
  A memo cell is sound when the value it holds is the value of the memoised function at
  the dependencies it holds.
\<close>

definition schemaCellOk :: "'e Imported_scheme \<Rightarrow> SchemaCell \<Rightarrow> bool" where
  "schemaCellOk env cell =
     (case cell of
        None \<Rightarrow> True
      | Some ((ss, supported), v) \<Rightarrow> v = initialSchema env ss supported)"

definition valuesCellOk :: "'e Imported_scheme \<Rightarrow> ValuesCell \<Rightarrow> bool" where
  "valuesCellOk env cell =
     (case cell of
        None \<Rightarrow> True
      | Some ((schema, connection, isEditMode, destDefinition), v) \<Rightarrow>
          v = initialValues env schema connection destDefinition isEditMode)"

definition hooksOk :: "'e Imported_scheme \<Rightarrow> Hooks \<Rightarrow> bool" where
  "hooksOk env hooks = (schemaCellOk env (schemaCell hooks) \<and> valuesCellOk env (valuesCell hooks))"

subsection \<open>Validation\<close>

text \<open>
  The schedule rule of \<^verbatim>\<open>connectionValidationSchema\<close> (lines 73 to 79), read with the
  validation library's meaning of its combinators: \<^verbatim>\<open>required\<close> rejects a missing
  number and a missing or empty string, \<^verbatim>\<open>nullable\<close> admits \<^verbatim>\<open>null\<close> as a value
  and skips the object's fields for it, \<^verbatim>\<open>defined\<close> rejects \<^verbatim>\<open>undefined\<close>. The
  result is whether the rule accepts the value.
\<close>

definition requiredNumber :: "int option \<Rightarrow> bool" where
  "requiredNumber n = (n \<noteq> None)"

definition requiredString :: "string option \<Rightarrow> bool" where
  "requiredString s = (case s of None \<Rightarrow> False | Some v \<Rightarrow> v \<noteq> [])"

definition scheduleAccepted :: "ConnectionSchedule nullable \<Rightarrow> bool" where
  "scheduleAccepted s =
     (case s of
        Undefined \<Rightarrow> False
      | Null \<Rightarrow> True
      | Value v \<Rightarrow> requiredNumber (units v) \<and> requiredString (timeUnit v))"

text \<open>
  The error a test creates with \<^verbatim>\<open>this.createError({ message, path })\<close>. The spec's
  violation kinds are the two message keys.
\<close>

record ValidationError =
  message :: string
  path :: string

definition MissingPrimaryKey :: "string \<Rightarrow> ValidationError" where
  "MissingPrimaryKey sid =
     \<lparr> message = ''connectionForm.primaryKey.required'',
       path = ''schema.streams['' @ sid @ ''].config.primaryKey'' \<rparr>"

definition MissingCursorField :: "string \<Rightarrow> ValidationError" where
  "MissingCursorField sid =
     \<lparr> message = ''connectionForm.cursorField.required'',
       path = ''schema.streams['' @ sid @ ''].config.cursorField'' \<rparr>"

text \<open>\<^verbatim>\<open>value.primaryKey?.length === 0\<close>: false for a missing array.\<close>

definition lengthIsZero :: "'a list option \<Rightarrow> bool" where
  "lengthIsZero xs = (case xs of None \<Rightarrow> False | Some ys \<Rightarrow> length ys = 0)"

text \<open>
  The test \<^verbatim>\<open>connectionSchema.config.validator\<close> (lines 115 to 144). The argument is
  the stream (\<^verbatim>\<open>this.parent\<close>), \<^verbatim>\<open>value\<close> its \<^verbatim>\<open>config\<close>; \<open>None\<close> is the
  result \<^verbatim>\<open>true\<close>, \<open>Some e\<close> the error returned.
\<close>

definition configValidator :: "SyncSchemaStream \<Rightarrow> ValidationError option" where
  "configValidator parent =
     (let val = config parent in
      if \<not> truthy (selected val) then None
      else if destinationSyncMode val = append_dedup \<and> lengthIsZero (primaryKey val)
      then Some (MissingPrimaryKey (id_str parent))
      else if syncMode val = Incremental
              \<and> \<not> truthy (sourceDefinedCursor (stream parent))
              \<and> lengthIsZero (cursorField val)
      then Some (MissingCursorField (id_str parent))
      else None)"

text \<open>
  The violations of one stream, and of the catalog: the test runs on every element of
  \<^verbatim>\<open>syncCatalog.streams\<close>, and each failing element contributes its error.
\<close>

definition streamViolations :: "SyncSchemaStream \<Rightarrow> ValidationError list" where
  "streamViolations s = (case configValidator s of None \<Rightarrow> [] | Some e \<Rightarrow> [e])"

definition catalogViolations :: "SyncSchema \<Rightarrow> ValidationError list" where
  "catalogViolations schema = concat (map streamViolations (streams schema))"



section \<open>Properties\<close>

subsection \<open>Operation merger\<close>

lemma find_isNormalization:
  "find isNormalizationTransformation ops = Some p \<Longrightarrow>
   isNormalizationTransformation p \<and> p \<in> set ops"
  by (auto simp: find_Some_iff)

lemma isNormalization_new:
  "isNormalizationTransformation (newNormalizationOperation choice wsId)"
  by (simp add: isNormalizationTransformation_def newNormalizationOperation_def)

lemma mapFormPropsToOperation_cases:
  "mapFormPropsToOperation values init wsId =
     (case normalization values of
        None \<Rightarrow> transformationList values
      | Some choice \<Rightarrow>
          if choice = RAW then transformationList values
          else (case find isNormalizationTransformation (initialOperationsOrDefault init) of
                  Some p \<Rightarrow> p # transformationList values
                | None \<Rightarrow> newNormalizationOperation choice wsId # transformationList values))"
  by (simp add: mapFormPropsToOperation_def transformationList_def initialOperationsOrDefault_def
      split: option.splits)

text \<open>
  Claim C2. With a normalization choice other than the raw one, the result is a
  normalization operation followed by the transformation list as it is; with no choice or
  the raw choice, the result is the transformation list. In both cases every
  transformation occurs once, in its place.
\<close>

theorem mapFormPropsToOperation_order:
  "(\<forall>choice. normalization values = Some choice \<and> choice \<noteq> RAW \<longrightarrow>
      (\<exists>op. isNormalizationTransformation op
         \<and> mapFormPropsToOperation values init wsId = op # transformationList values))
   \<and> (normalization values = None \<or> normalization values = Some RAW \<longrightarrow>
        mapFormPropsToOperation values init wsId = transformationList values)"
proof (intro conjI allI impI)
  fix choice
  assume a: "normalization values = Some choice \<and> choice \<noteq> RAW"
  show "\<exists>op. isNormalizationTransformation op
         \<and> mapFormPropsToOperation values init wsId = op # transformationList values"
  proof (cases "find isNormalizationTransformation (initialOperationsOrDefault init)")
    case None
    with a show ?thesis
      by (simp add: mapFormPropsToOperation_cases isNormalization_new)
  next
    case (Some p)
    with a show ?thesis
      by (simp add: mapFormPropsToOperation_cases find_isNormalization)
  qed
next
  assume "normalization values = None \<or> normalization values = Some RAW"
  then show "mapFormPropsToOperation values init wsId = transformationList values"
    by (auto simp: mapFormPropsToOperation_cases)
qed

theorem mapFormPropsToOperation_order_witness:
  "mapFormPropsToOperation
     \<lparr> transformations =
         Some [\<lparr> operationId = ''t1'', name = ''dbt'', workspaceId = ''w'',
                 operatorConfiguration =
                   \<lparr> operatorType = Dbt, normalization_op = None, dbt = None \<rparr> \<rparr>],
       normalization = Some BASIC \<rparr>
     None ''w''
   = [newNormalizationOperation BASIC ''w'',
      \<lparr> operationId = ''t1'', name = ''dbt'', workspaceId = ''w'',
        operatorConfiguration = \<lparr> operatorType = Dbt, normalization_op = None, dbt = None \<rparr> \<rparr>]
   \<and> mapFormPropsToOperation
     \<lparr> transformations =
         Some [\<lparr> operationId = ''t1'', name = ''dbt'', workspaceId = ''w'',
                 operatorConfiguration =
                   \<lparr> operatorType = Dbt, normalization_op = None, dbt = None \<rparr> \<rparr>],
       normalization = Some RAW \<rparr>
     None ''w''
   = [\<lparr> operationId = ''t1'', name = ''dbt'', workspaceId = ''w'',
        operatorConfiguration = \<lparr> operatorType = Dbt, normalization_op = None, dbt = None \<rparr> \<rparr>]"
  using
    mapFormPropsToOperation_order
      [of "\<lparr> transformations =
               Some [\<lparr> operationId = ''t1'', name = ''dbt'', workspaceId = ''w'',
                       operatorConfiguration =
                         \<lparr> operatorType = Dbt, normalization_op = None, dbt = None \<rparr> \<rparr>],
             normalization = Some BASIC \<rparr>" None "''w''"]
    mapFormPropsToOperation_order
      [of "\<lparr> transformations =
               Some [\<lparr> operationId = ''t1'', name = ''dbt'', workspaceId = ''w'',
                       operatorConfiguration =
                         \<lparr> operatorType = Dbt, normalization_op = None, dbt = None \<rparr> \<rparr>],
             normalization = Some RAW \<rparr>" None "''w''"]
  by (simp add: transformationList_def mapFormPropsToOperation_cases initialOperationsOrDefault_def)

text \<open>
  Claim C3. With a normalization choice other than the raw one: if the persisted operations
  hold a normalization operation, the first operation of the result is that persisted
  operation (the first one found), with its \<^verbatim>\<open>operationId\<close>; if they hold none, it is a
  new normalization operation with the chosen option and the empty \<^verbatim>\<open>operationId\<close>.
\<close>

theorem mapFormPropsToOperation_normalization_identity:
  assumes "normalization values = Some choice" and "choice \<noteq> RAW"
  shows "((\<exists>p \<in> set (initialOperationsOrDefault init). isNormalizationTransformation p) \<longrightarrow>
            (\<exists>p \<in> set (initialOperationsOrDefault init).
               find isNormalizationTransformation (initialOperationsOrDefault init) = Some p
               \<and> mapFormPropsToOperation values init wsId = p # transformationList values
               \<and> operationId (hd (mapFormPropsToOperation values init wsId)) = operationId p))
       \<and> ((\<forall>p \<in> set (initialOperationsOrDefault init). \<not> isNormalizationTransformation p) \<longrightarrow>
            mapFormPropsToOperation values init wsId =
              \<lparr> operationId = [], name = ''Normalization'', workspaceId = wsId,
                operatorConfiguration =
                  \<lparr> operatorType = Normalization,
                    normalization_op = Some \<lparr> option = Some choice \<rparr>,
                    dbt = None \<rparr> \<rparr> # transformationList values)"
proof (intro conjI impI)
  assume "\<exists>p \<in> set (initialOperationsOrDefault init). isNormalizationTransformation p"
  then obtain p where
    p: "find isNormalizationTransformation (initialOperationsOrDefault init) = Some p"
    by (cases "find isNormalizationTransformation (initialOperationsOrDefault init)")
       (auto simp: find_None_iff)
  from p have "p \<in> set (initialOperationsOrDefault init)"
    by (simp add: find_isNormalization)
  moreover from p assms
  have "mapFormPropsToOperation values init wsId = p # transformationList values"
    by (simp add: mapFormPropsToOperation_cases)
  ultimately show "\<exists>p \<in> set (initialOperationsOrDefault init).
               find isNormalizationTransformation (initialOperationsOrDefault init) = Some p
               \<and> mapFormPropsToOperation values init wsId = p # transformationList values
               \<and> operationId (hd (mapFormPropsToOperation values init wsId)) = operationId p"
    using p by auto
next
  assume "\<forall>p \<in> set (initialOperationsOrDefault init). \<not> isNormalizationTransformation p"
  then have "find isNormalizationTransformation (initialOperationsOrDefault init) = None"
    by (simp add: find_None_iff)
  with assms show "mapFormPropsToOperation values init wsId =
              \<lparr> operationId = [], name = ''Normalization'', workspaceId = wsId,
                operatorConfiguration =
                  \<lparr> operatorType = Normalization,
                    normalization_op = Some \<lparr> option = Some choice \<rparr>,
                    dbt = None \<rparr> \<rparr> # transformationList values"
    by (simp add: mapFormPropsToOperation_cases newNormalizationOperation_def)
qed

theorem mapFormPropsToOperation_normalization_identity_witness:
  "mapFormPropsToOperation \<lparr> transformations = None, normalization = Some BASIC \<rparr>
     (Some [\<lparr> operationId = ''t1'', name = ''dbt'', workspaceId = ''w'',
              operatorConfiguration =
                \<lparr> operatorType = Dbt, normalization_op = None, dbt = None \<rparr> \<rparr>,
            \<lparr> operationId = ''n7'', name = ''Normalization'', workspaceId = ''w'',
              operatorConfiguration =
                \<lparr> operatorType = Normalization,
                  normalization_op = Some \<lparr> option = Some BASIC \<rparr>, dbt = None \<rparr> \<rparr>])
     ''w''
   = [\<lparr> operationId = ''n7'', name = ''Normalization'', workspaceId = ''w'',
        operatorConfiguration =
          \<lparr> operatorType = Normalization,
            normalization_op = Some \<lparr> option = Some BASIC \<rparr>, dbt = None \<rparr> \<rparr>]
   \<and> mapFormPropsToOperation \<lparr> transformations = None, normalization = Some BASIC \<rparr>
       (Some []) ''w''
     = [\<lparr> operationId = [], name = ''Normalization'', workspaceId = ''w'',
          operatorConfiguration =
            \<lparr> operatorType = Normalization,
              normalization_op = Some \<lparr> option = Some BASIC \<rparr>, dbt = None \<rparr> \<rparr>]"
  using
    mapFormPropsToOperation_normalization_identity
      [of "\<lparr> transformations = None, normalization = Some BASIC \<rparr>" BASIC
          "Some [\<lparr> operationId = ''t1'', name = ''dbt'', workspaceId = ''w'',
                   operatorConfiguration =
                     \<lparr> operatorType = Dbt, normalization_op = None, dbt = None \<rparr> \<rparr>,
                 \<lparr> operationId = ''n7'', name = ''Normalization'', workspaceId = ''w'',
                   operatorConfiguration =
                     \<lparr> operatorType = Normalization,
                       normalization_op = Some \<lparr> option = Some BASIC \<rparr>, dbt = None \<rparr> \<rparr>]"
          "''w''"]
    mapFormPropsToOperation_normalization_identity
      [of "\<lparr> transformations = None, normalization = Some BASIC \<rparr>" BASIC "Some []" "''w''"]
  by (simp add: transformationList_def initialOperationsOrDefault_def
      isNormalizationTransformation_def)

subsection \<open>Initial normalization\<close>

lemma getInitialNormalization_value:
  "getInitialNormalization ops isEditMode =
     (case persistedNormalizationOption ops of None \<Rightarrow> BASIC | Some n \<Rightarrow> n)"
  by (simp add: getInitialNormalization_def Let_def split: option.splits)

lemma getInitialNormalization_ignores_isEditMode:
  "getInitialNormalization ops isEditMode = getInitialNormalization ops isEditMode'"
  by (simp add: getInitialNormalization_value)

text \<open>
  Claim C4. In edit mode, with persisted operations that hold no normalization operation,
  the function gives the default option BASIC, as it does for a new connection: the
  assignment made in edit mode (line 228) leaves the variable undefined.
\<close>

theorem getInitialNormalization_edit_mode_BASIC:
  "getInitialNormalization (Some []) (Some True) = BASIC"
  by (simp add: getInitialNormalization_def persistedNormalizationOption_def truthy_def)

subsection \<open>Default sync mode\<close>

lemma priorityOrder_entries:
  "priorityOrder =
     [(Incremental, append_dedup),
      (Incremental, append_mode),
      (FullRefresh, append_mode),
      (FullRefresh, overwrite)]"
  by (simp add: priorityOrder_def SUPPORTED_MODES_def)




subsection \<open>Initial schema\<close>

lemma initialSchema_resolveNode:
  "streams (initialSchema env ss supported) =
     filterBoolean (map (\<lambda>(i, x). resolveNode env supported x i) (enumerate 0 ss))"
  by (simp add: initialSchema_def mapIndexed_def resolveNode_def)

lemma resolveNode_None:
  assumes "keepsDescriptor (verifySupportedSyncModes env)"
    and "keepsDescriptor (verifyConfigCursorField env)"
  shows "(resolveNode env supported a i = None) = (\<not> resolvable supported a)"
  using assms
  by (simp add: resolveNode_def getOptimalSyncMode_def resolvable_def keepsDescriptor_def
      Let_def split: option.splits)

lemma resolveNode_Some:
  assumes "keepsDescriptor (verifySupportedSyncModes env)"
    and "keepsDescriptor (verifyConfigCursorField env)"
    and "resolveNode env supported a i = Some n"
  shows "id_str n = toString i \<and> stream n = stream a"
  using assms
  by (auto simp: resolveNode_def getOptimalSyncMode_def keepsDescriptor_def
      Let_def split: option.splits)

lemma filterBoolean_resolveNode:
  assumes "keepsDescriptor (verifySupportedSyncModes env)"
    and "keepsDescriptor (verifyConfigCursorField env)"
  shows "map (\<lambda>n. (id_str n, stream n))
           (filterBoolean (map (\<lambda>(i, x). resolveNode env supported x i) (enumerate k ss)))
         = map (\<lambda>(i, s). (toString i, stream s))
             (filter (\<lambda>(i, s). resolvable supported s) (enumerate k ss))"
proof (induction ss arbitrary: k)
  case Nil
  show ?case by simp
next
  case (Cons a ss)
  show ?case
  proof (cases "resolveNode env supported a k")
    case None
    moreover from None have "\<not> resolvable supported a"
      using resolveNode_None [OF assms] by blast
    ultimately show ?thesis using Cons.IH [of "Suc k"] by simp
  next
    case (Some n)
    moreover from Some have "resolvable supported a"
      using resolveNode_None [OF assms, of supported a k] by simp
    moreover from Some have "id_str n = toString k \<and> stream n = stream a"
      using resolveNode_Some [OF assms] by blast
    ultimately show ?thesis using Cons.IH [of "Suc k"] by simp
  qed
qed

lemma keepsDescriptor_id: "keepsDescriptor id"
  by (simp add: keepsDescriptor_def)

lemma keepsDescriptor_repairCursorField: "keepsDescriptor repairCursorField"
  by (simp add: keepsDescriptor_def repairCursorField_def)

text \<open>
  Claim C5. Whatever the two helpers do to the configuration of a stream (they keep its
  \<^verbatim>\<open>id\<close> and its descriptor), the streams of the initial schema are, in the order of
  the input, the input streams for which the resolution gives a pair, each with the
  decimal form of its zero-based input position as \<^verbatim>\<open>id\<close>; the others are dropped. A
  catalog of one stream that supports only FullRefresh, against a destination that
  declares only append_dedup, gives a schema one stream shorter.
\<close>

theorem initialSchema_ids_order_drop:
  assumes "keepsDescriptor (verifySupportedSyncModes env)"
    and "keepsDescriptor (verifyConfigCursorField env)"
  shows "map (\<lambda>n. (id_str n, stream n)) (streams (initialSchema env ss supported))
           = map (\<lambda>(i, s). (toString i, stream s))
               (filter (\<lambda>(i, s). resolvable supported s) (enumerate 0 ss))
       \<and> (\<forall>s. ss = [s] \<and> set (supportedSyncModes (stream s)) = {FullRefresh}
              \<and> supported = Some [append_dedup] \<longrightarrow>
            length (streams (initialSchema env ss supported)) = length ss - 1)"
proof (intro conjI allI impI)
  show "map (\<lambda>n. (id_str n, stream n)) (streams (initialSchema env ss supported))
           = map (\<lambda>(i, s). (toString i, stream s))
               (filter (\<lambda>(i, s). resolvable supported s) (enumerate 0 ss))"
    by (simp only: initialSchema_resolveNode filterBoolean_resolveNode [OF assms])
next
  fix s
  assume a: "ss = [s] \<and> set (supportedSyncModes (stream s)) = {FullRefresh}
              \<and> supported = Some [append_dedup]"
  then have "\<not> resolvable supported s"
    by (simp add: resolvable_def resolveDefaultMode_def priorityOrder_entries
        destinationSupports_def)
  then have "resolveNode env supported s 0 = None"
    using resolveNode_None [OF assms] by blast
  with a show "length (streams (initialSchema env ss supported)) = length ss - 1"
    by (simp add: initialSchema_resolveNode)
qed

theorem initialSchema_ids_order_drop_witness:
  "keepsDescriptor id \<and> keepsDescriptor repairCursorField
   \<and> map (\<lambda>n. (id_str n, streamName (stream n)))
       (streams
          (initialSchema
             \<lparr> verifySupportedSyncModes = id, verifyConfigCursorField = repairCursorField,
               SOURCE_NAMESPACE_TAG = ''tag'' \<rparr>
             [\<lparr> id_str = [],
                stream = \<lparr> streamName = ''users'', supportedSyncModes = [FullRefresh],
                           sourceDefinedCursor = None, defaultCursorField = [] \<rparr>,
                config = \<lparr> selected = Some True, syncMode = FullRefresh,
                           destinationSyncMode = append_mode,
                           primaryKey = Some [], cursorField = Some [] \<rparr> \<rparr>,
              \<lparr> id_str = [],
                stream = \<lparr> streamName = ''orders'',
                           supportedSyncModes = [FullRefresh, Incremental],
                           sourceDefinedCursor = None, defaultCursorField = [] \<rparr>,
                config = \<lparr> selected = Some True, syncMode = FullRefresh,
                           destinationSyncMode = append_mode,
                           primaryKey = Some [], cursorField = Some [] \<rparr> \<rparr>]
             (Some [append_dedup])))
     = [(''1'', ''orders'')]
   \<and> length
       (streams
          (initialSchema
             \<lparr> verifySupportedSyncModes = id, verifyConfigCursorField = repairCursorField,
               SOURCE_NAMESPACE_TAG = ''tag'' \<rparr>
             [\<lparr> id_str = [],
                stream = \<lparr> streamName = ''users'', supportedSyncModes = [FullRefresh],
                           sourceDefinedCursor = None, defaultCursorField = [] \<rparr>,
                config = \<lparr> selected = Some True, syncMode = FullRefresh,
                           destinationSyncMode = append_mode,
                           primaryKey = Some [], cursorField = Some [] \<rparr> \<rparr>]
             (Some [append_dedup])))
     = 0"
proof -
  let ?env = "\<lparr> verifySupportedSyncModes = id, verifyConfigCursorField = repairCursorField,
                SOURCE_NAMESPACE_TAG = ''tag'' \<rparr>"
  have k1: "keepsDescriptor (verifySupportedSyncModes ?env)"
    by (simp add: keepsDescriptor_id)
  have k2: "keepsDescriptor (verifyConfigCursorField ?env)"
    by (simp add: keepsDescriptor_repairCursorField)
  note t = initialSchema_ids_order_drop [OF k1 k2]
  show ?thesis
    using k1 k2
      t [of "[\<lparr> id_str = [],
                stream = \<lparr> streamName = ''users'', supportedSyncModes = [FullRefresh],
                           sourceDefinedCursor = None, defaultCursorField = [] \<rparr>,
                config = \<lparr> selected = Some True, syncMode = FullRefresh,
                           destinationSyncMode = append_mode,
                           primaryKey = Some [], cursorField = Some [] \<rparr> \<rparr>,
              \<lparr> id_str = [],
                stream = \<lparr> streamName = ''orders'',
                           supportedSyncModes = [FullRefresh, Incremental],
                           sourceDefinedCursor = None, defaultCursorField = [] \<rparr>,
                config = \<lparr> selected = Some True, syncMode = FullRefresh,
                           destinationSyncMode = append_mode,
                           primaryKey = Some [], cursorField = Some [] \<rparr> \<rparr>]"
             "Some [append_dedup]"]
      t [of "[\<lparr> id_str = [],
                stream = \<lparr> streamName = ''users'', supportedSyncModes = [FullRefresh],
                           sourceDefinedCursor = None, defaultCursorField = [] \<rparr>,
                config = \<lparr> selected = Some True, syncMode = FullRefresh,
                           destinationSyncMode = append_mode,
                           primaryKey = Some [], cursorField = Some [] \<rparr> \<rparr>]"
             "Some [append_dedup]"]
    by (simp add: initialSchema_def mapIndexed_def enumerate_eq_zip getOptimalSyncMode_def
        resolveDefaultMode_def priorityOrder_entries destinationSupports_def
        repairCursorField_def toString.simps truthy_def upt_rec)
qed

subsection \<open>Validation of a stream\<close>

lemma streamViolations_cases:
  "streamViolations s =
     (if \<not> truthy (selected (config s)) then []
      else if destinationSyncMode (config s) = append_dedup \<and> primaryKey (config s) = Some []
      then [MissingPrimaryKey (id_str s)]
      else if syncMode (config s) = Incremental
              \<and> \<not> truthy (sourceDefinedCursor (stream s))
              \<and> cursorField (config s) = Some []
      then [MissingCursorField (id_str s)]
      else [])"
  by (simp add: streamViolations_def configValidator_def lengthIsZero_def Let_def
      split: option.splits)


lemma message_MissingCursorField:
  "message (MissingCursorField sid) = ''connectionForm.cursorField.required''"
  by (simp add: MissingCursorField_def)

lemma catalogViolations_Cons:
  "catalogViolations \<lparr> streams = s # ss \<rparr>
     = streamViolations s @ catalogViolations \<lparr> streams = ss \<rparr>"
  by (simp add: catalogViolations_def)

text \<open>
  Claim C6. A selected stream with destination sync mode append_dedup and an empty
  primary key has exactly one violation, the missing primary key, at the path
  \<^verbatim>\<open>schema.streams[<id>].config.primaryKey\<close> of its own \<^verbatim>\<open>id\<close>. A stream with a
  non-empty primary key, or one that is not selected, has no violation of that kind.
\<close>

theorem streamViolations_missing_primary_key:
  "(selected (config s) = Some True \<and> destinationSyncMode (config s) = append_dedup
      \<and> primaryKey (config s) = Some [] \<longrightarrow>
      streamViolations s =
        [\<lparr> message = ''connectionForm.primaryKey.required'',
           path = ''schema.streams['' @ id_str s @ ''].config.primaryKey'' \<rparr>])
   \<and> ((\<exists>k ks. primaryKey (config s) = Some (k # ks)) \<or> \<not> truthy (selected (config s)) \<longrightarrow>
        (\<forall>e \<in> set (streamViolations s). message e \<noteq> ''connectionForm.primaryKey.required''))"
proof (intro conjI impI)
  assume "selected (config s) = Some True \<and> destinationSyncMode (config s) = append_dedup
      \<and> primaryKey (config s) = Some []"
  then show "streamViolations s =
        [\<lparr> message = ''connectionForm.primaryKey.required'',
           path = ''schema.streams['' @ id_str s @ ''].config.primaryKey'' \<rparr>]"
    by (simp add: streamViolations_cases truthy_def MissingPrimaryKey_def)
next
  assume "(\<exists>k ks. primaryKey (config s) = Some (k # ks)) \<or> \<not> truthy (selected (config s))"
  then show "\<forall>e \<in> set (streamViolations s).
               message e \<noteq> ''connectionForm.primaryKey.required''"
    by (auto simp: streamViolations_cases message_MissingCursorField)
qed

theorem streamViolations_missing_primary_key_witness:
  "streamViolations
     \<lparr> id_str = ''3'',
       stream = \<lparr> streamName = ''users'', supportedSyncModes = [FullRefresh, Incremental],
                  sourceDefinedCursor = Some True, defaultCursorField = [] \<rparr>,
       config = \<lparr> selected = Some True, syncMode = Incremental,
                  destinationSyncMode = append_dedup,
                  primaryKey = Some [], cursorField = Some [] \<rparr> \<rparr>
   = [\<lparr> message = ''connectionForm.primaryKey.required'',
        path = ''schema.streams[3].config.primaryKey'' \<rparr>]
   \<and> streamViolations
     \<lparr> id_str = ''3'',
       stream = \<lparr> streamName = ''users'', supportedSyncModes = [FullRefresh, Incremental],
                  sourceDefinedCursor = Some True, defaultCursorField = [] \<rparr>,
       config = \<lparr> selected = Some True, syncMode = Incremental,
                  destinationSyncMode = append_dedup,
                  primaryKey = Some [[''id'']], cursorField = Some [] \<rparr> \<rparr>
   = []"
  using
    streamViolations_missing_primary_key
      [of "\<lparr> id_str = ''3'',
             stream = \<lparr> streamName = ''users'', supportedSyncModes = [FullRefresh, Incremental],
                        sourceDefinedCursor = Some True, defaultCursorField = [] \<rparr>,
             config = \<lparr> selected = Some True, syncMode = Incremental,
                        destinationSyncMode = append_dedup,
                        primaryKey = Some [], cursorField = Some [] \<rparr> \<rparr>"]
    streamViolations_missing_primary_key
      [of "\<lparr> id_str = ''3'',
             stream = \<lparr> streamName = ''users'', supportedSyncModes = [FullRefresh, Incremental],
                        sourceDefinedCursor = Some True, defaultCursorField = [] \<rparr>,
             config = \<lparr> selected = Some True, syncMode = Incremental,
                        destinationSyncMode = append_dedup,
                        primaryKey = Some [[''id'']], cursorField = Some [] \<rparr> \<rparr>"]
  by (simp add: streamViolations_cases truthy_def)

text \<open>
  Claim C7, as amended. A selected Incremental stream whose descriptor defines no cursor
  and whose cursor field is empty has exactly one violation, the missing cursor field at
  \<^verbatim>\<open>schema.streams[<id>].config.cursorField\<close>, unless the primary-key check applies to
  it (append_dedup with an empty primary key): the test returns at its first error. A
  stream that is not selected has no violation.
\<close>

theorem streamViolations_missing_cursor_field:
  "(selected (config s) = Some True \<and> syncMode (config s) = Incremental
      \<and> \<not> truthy (sourceDefinedCursor (stream s)) \<and> cursorField (config s) = Some []
      \<and> \<not> (destinationSyncMode (config s) = append_dedup \<and> primaryKey (config s) = Some [])
      \<longrightarrow>
      streamViolations s =
        [\<lparr> message = ''connectionForm.cursorField.required'',
           path = ''schema.streams['' @ id_str s @ ''].config.cursorField'' \<rparr>])
   \<and> (\<not> truthy (selected (config s)) \<longrightarrow> streamViolations s = [])"
  by (simp add: streamViolations_cases truthy_def MissingCursorField_def)

theorem streamViolations_missing_cursor_field_witness:
  "streamViolations
     \<lparr> id_str = ''0'',
       stream = \<lparr> streamName = ''users'', supportedSyncModes = [FullRefresh, Incremental],
                  sourceDefinedCursor = Some False, defaultCursorField = [] \<rparr>,
       config = \<lparr> selected = Some True, syncMode = Incremental,
                  destinationSyncMode = append_mode,
                  primaryKey = Some [], cursorField = Some [] \<rparr> \<rparr>
   = [\<lparr> message = ''connectionForm.cursorField.required'',
        path = ''schema.streams[0].config.cursorField'' \<rparr>]
   \<and> streamViolations
     \<lparr> id_str = ''0'',
       stream = \<lparr> streamName = ''users'', supportedSyncModes = [FullRefresh, Incremental],
                  sourceDefinedCursor = Some False, defaultCursorField = [] \<rparr>,
       config = \<lparr> selected = Some False, syncMode = Incremental,
                  destinationSyncMode = append_mode,
                  primaryKey = Some [], cursorField = Some [] \<rparr> \<rparr>
   = []"
  using
    streamViolations_missing_cursor_field
      [of "\<lparr> id_str = ''0'',
             stream = \<lparr> streamName = ''users'', supportedSyncModes = [FullRefresh, Incremental],
                        sourceDefinedCursor = Some False, defaultCursorField = [] \<rparr>,
             config = \<lparr> selected = Some True, syncMode = Incremental,
                        destinationSyncMode = append_mode,
                        primaryKey = Some [], cursorField = Some [] \<rparr> \<rparr>"]
    streamViolations_missing_cursor_field
      [of "\<lparr> id_str = ''0'',
             stream = \<lparr> streamName = ''users'', supportedSyncModes = [FullRefresh, Incremental],
                        sourceDefinedCursor = Some False, defaultCursorField = [] \<rparr>,
             config = \<lparr> selected = Some False, syncMode = Incremental,
                        destinationSyncMode = append_mode,
                        primaryKey = Some [], cursorField = Some [] \<rparr> \<rparr>"]
  by (simp add: truthy_def)

text \<open>
  Claim C7 as stated fails: a selected Incremental stream with no source-defined cursor
  and an empty cursor field, whose destination sync mode is append_dedup and whose primary
  key is empty, has the missing primary key as its only violation, and no missing cursor
  field.
\<close>

theorem streamViolations_cursor_field_counterexample:
  "streamViolations
     \<lparr> id_str = ''0'',
       stream = \<lparr> streamName = ''users'', supportedSyncModes = [FullRefresh, Incremental],
                  sourceDefinedCursor = Some False, defaultCursorField = [] \<rparr>,
       config = \<lparr> selected = Some True, syncMode = Incremental,
                  destinationSyncMode = append_dedup,
                  primaryKey = Some [], cursorField = Some [] \<rparr> \<rparr>
   = [\<lparr> message = ''connectionForm.primaryKey.required'',
        path = ''schema.streams[0].config.primaryKey'' \<rparr>]"
  by (simp add: streamViolations_cases truthy_def MissingPrimaryKey_def)




subsection \<open>Validation of the schedule\<close>

text \<open>
  Claim C8, as amended. The schedule rule rejects an unset (undefined) schedule and a
  schedule object that lacks its units or its time unit; it accepts a schedule exactly
  when it is a concrete schedule with both units and time unit populated, or
  \<^verbatim>\<open>null\<close>: the schema is \<^verbatim>\<open>nullable\<close>, and \<^verbatim>\<open>null\<close> is accepted.
\<close>

theorem scheduleAccepted_iff:
  "scheduleAccepted s =
     (s = Null \<or> (\<exists>u t. s = Value \<lparr> units = Some u, timeUnit = Some t \<rparr> \<and> t \<noteq> []))"
proof (cases s)
  case Undefined
  then show ?thesis by (simp add: scheduleAccepted_def)
next
  case Null
  then show ?thesis by (simp add: scheduleAccepted_def)
next
  case (Value v)
  then show ?thesis
    by (cases v)
       (auto simp: scheduleAccepted_def requiredNumber_def requiredString_def
         split: option.splits)
qed

theorem scheduleAccepted_iff_witness:
  "scheduleAccepted (Value \<lparr> units = Some 24, timeUnit = Some ''hours'' \<rparr>)
   \<and> \<not> scheduleAccepted Undefined
   \<and> \<not> scheduleAccepted (Value \<lparr> units = None, timeUnit = Some ''hours'' \<rparr>)
   \<and> \<not> scheduleAccepted (Value \<lparr> units = Some 24, timeUnit = None \<rparr>)"
  using
    scheduleAccepted_iff [of "Value \<lparr> units = Some 24, timeUnit = Some ''hours'' \<rparr>"]
    scheduleAccepted_iff [of Undefined]
    scheduleAccepted_iff [of "Value \<lparr> units = None, timeUnit = Some ''hours'' \<rparr>"]
    scheduleAccepted_iff [of "Value \<lparr> units = Some 24, timeUnit = None \<rparr>"]
  by simp

text \<open>
  Claim C8 as stated fails: a schedule whose value is \<^verbatim>\<open>null\<close> is accepted.
\<close>

theorem scheduleAccepted_null_counterexample: "scheduleAccepted Null"
  by (simp add: scheduleAccepted_def)

subsection \<open>Initial values across renders\<close>

lemma useMemo_sound:
  "(case cell of None \<Rightarrow> True | Some (d, v) \<Rightarrow> d = deps \<longrightarrow> v = factory) \<Longrightarrow>
   useMemo factory deps cell = (factory, Some (deps, factory))"
  by (auto simp: useMemo_def split: option.splits)

lemma useInitialSchema_value:
  assumes "schemaCellOk env cell"
  shows "useInitialSchema env schema supported cell =
           (initialSchema env (streams schema) supported,
            Some ((streams schema, supported), initialSchema env (streams schema) supported))"
  unfolding useInitialSchema_def
  by (rule useMemo_sound) (use assms in \<open>auto simp: schemaCellOk_def split: option.splits\<close>)

lemma useInitialValues_value:
  assumes "hooksOk env hooks"
  shows "fst (useInitialValues env connection destDefinition isEditMode hooks) =
           initialValues env
             (initialSchema env (streams (syncCatalog connection))
                (supportedDestinationSyncModes destDefinition))
             connection destDefinition isEditMode
       \<and> hooksOk env (snd (useInitialValues env connection destDefinition isEditMode hooks))"
proof -
  let ?schema = "initialSchema env (streams (syncCatalog connection))
                   (supportedDestinationSyncModes destDefinition)"
  have s: "useInitialSchema env (syncCatalog connection)
              (supportedDestinationSyncModes destDefinition) (schemaCell hooks)
           = (?schema, Some ((streams (syncCatalog connection),
                supportedDestinationSyncModes destDefinition), ?schema))"
    using assms by (simp add: useInitialSchema_value hooksOk_def)
  have v: "useMemo (initialValues env ?schema connection destDefinition isEditMode)
              (?schema, connection, isEditMode, destDefinition) (valuesCell hooks)
           = (initialValues env ?schema connection destDefinition isEditMode,
              Some ((?schema, connection, isEditMode, destDefinition),
                initialValues env ?schema connection destDefinition isEditMode))"
    by (rule useMemo_sound)
       (use assms in \<open>auto simp: hooksOk_def valuesCellOk_def split: option.splits\<close>)
  show ?thesis
    by (simp add: useInitialValues_def s v hooksOk_def schemaCellOk_def valuesCellOk_def)
qed

lemma renders_ok: "hooksOk env hooks \<Longrightarrow> hooksOk env (renders env history hooks)"
proof (induction history arbitrary: hooks)
  case Nil
  then show ?case by simp
next
  case (Cons r history)
  obtain c d e where r: "r = (c, d, e)" by (cases r)
  from Cons.prems have "hooksOk env (snd (useInitialValues env c d e hooks))"
    by (simp add: useInitialValues_value)
  then show ?case using Cons.IH r by simp
qed

lemma mounted_ok: "hooksOk env mounted"
  by (simp add: hooksOk_def mounted_def schemaCellOk_def valuesCellOk_def)

text \<open>
  Claim C9. The value \<^verbatim>\<open>useInitialValues\<close> returns for given arguments is the same
  after any two histories of earlier renders of the mounted component, whatever their
  arguments were and in whatever order they came, and so are the operations
  \<^verbatim>\<open>mapFormPropsToOperation\<close> builds from that value and the persisted operations: the
  dependency lists of both memo cells cover everything the memoised functions read.
\<close>

theorem useInitialValues_deterministic:
  "fst (useInitialValues env connection destDefinition isEditMode
          (renders env history1 mounted))
     = fst (useInitialValues env connection destDefinition isEditMode
              (renders env history2 mounted))
   \<and> mapFormPropsToOperation
       (fst (useInitialValues env connection destDefinition isEditMode
               (renders env history1 mounted)))
       (operations connection) wsId
     = mapFormPropsToOperation
         (fst (useInitialValues env connection destDefinition isEditMode
                 (renders env history2 mounted)))
         (operations connection) wsId"
proof -
  have "hooksOk env (renders env history1 mounted)"
    and "hooksOk env (renders env history2 mounted)"
    by (simp_all add: renders_ok mounted_ok)
  then have
    "fst (useInitialValues env connection destDefinition isEditMode
            (renders env history1 mounted))
     = fst (useInitialValues env connection destDefinition isEditMode
              (renders env history2 mounted))"
    by (simp add: useInitialValues_value)
  then show ?thesis by simp
qed

end
